theory Spec2Isabelle
  imports Main "HOL-Library.Sublist"
begin

section \<open>External collaborators and configuration\<close>

text \<open>
  The service talks to three collaborators that are not part of the module: the ORKG client
  (\<open>orkg_client.contributions.compare_dataframe\<close>), the language-model agent
  (\<open>agent.run\<close>, \<open>agent.arun\<close>) and the streaming handler (\<open>action_logs\<close>).
  Their behaviour is a parameter of the model, and every call that reaches them is written
  down, in order, in a list of calls. A Python exception is a value of \<open>exn\<close>.
\<close>

datatype exn =
    NotImplementedError string
  | ExternalError string

text \<open>\<open>CHAT_MODELS\<close>, lines 21-28.\<close>

definition CHAT_MODELS :: "string list" where
  "CHAT_MODELS =
    [''gpt-4'',
     ''gpt-3.5-turbo'',
     ''gpt-3.5-turbo-16k'',
     ''gpt-3.5-turbo-0613'',
     ''gpt-3.5-turbo-16k-0613'',
     ''gpt-4-32k'']"

datatype llm_class = ChatOpenAI | OpenAI

text \<open>An LLM object: its class and the keyword arguments of its constructor.\<close>

record llm =
  cls :: llm_class
  streaming :: bool
  openai_api_key :: string
  model_name :: string

text \<open>\<open>isinstance(llm, ChatOpenAI)\<close>: neither class derives from the other.\<close>

definition isinstance_ChatOpenAI :: "llm \<Rightarrow> bool" where
  "isinstance_ChatOpenAI l = (cls l = ChatOpenAI)"

subsection \<open>The comparison table\<close>

text \<open>
  A pandas DataFrame: row labels, column labels and the cells row by row. \<open>T\<close> is the
  transpose, \<open>to_dict\<close> the default orientation of \<open>DataFrame.to_dict\<close>
  (column label to row label to cell), built by successive insertion into a dict, so that
  a repeated label keeps its first position and its last value.
\<close>

type_synonym cell = string

record dataframe =
  index :: "string list"
  columns :: "string list"
  cells :: "cell list list"

definition rectangular :: "dataframe \<Rightarrow> bool" where
  "rectangular df =
    (length (cells df) = length (index df) \<and>
     list_all (\<lambda>r. length r = length (columns df)) (cells df))"

definition T :: "dataframe \<Rightarrow> dataframe" where
  "T df =
    \<lparr>index = columns df,
     columns = index df,
     cells = map (\<lambda>j. map (\<lambda>i. cells df ! i ! j) [0..<length (index df)])
               [0..<length (columns df)]\<rparr>"

fun setitem :: "('k \<times> 'v) list \<Rightarrow> 'k \<Rightarrow> 'v \<Rightarrow> ('k \<times> 'v) list" where
  "setitem [] k v = [(k, v)]"
| "setitem ((k', v') # d) k v =
     (if k' = k then (k', v) # d else (k', v') # setitem d k v)"

definition dict :: "('k \<times> 'v) list \<Rightarrow> ('k \<times> 'v) list" where
  "dict kvs = fold (\<lambda>(k, v) d. setitem d k v) kvs []"

type_synonym document = "(string \<times> (string \<times> cell) list) list"

definition to_dict :: "dataframe \<Rightarrow> document" where
  "to_dict df =
    dict (map (\<lambda>j. (columns df ! j,
                    dict (map (\<lambda>i. (index df ! i, cells df ! i ! j))
                           [0..<length (index df)])))
           [0..<length (columns df)])"

text \<open>
  The flattening of a table into a nested key-value document, read off the table as it
  stands: one entry per row label, holding one entry per column label, holding the cell.
\<close>

definition to_dict_rows :: "dataframe \<Rightarrow> document" where
  "to_dict_rows tbl =
    dict (map (\<lambda>i. (index tbl ! i,
                    dict (map (\<lambda>j. (columns tbl ! j, cells tbl ! i ! j))
                           [0..<length (columns tbl)])))
           [0..<length (index tbl)])"

subsection \<open>Handlers and callback managers\<close>

datatype websocket = WebSocket nat

datatype connection_manager = ConnectionManager nat

datatype handler =
    AsyncStreamThoughtsAndAnswerHandler
  | WSStreamThoughtsAndAnswerHandler websocket connection_manager

datatype callback_manager =
    BaseCallbackManager "handler list"
  | AsyncCallbackManager "handler list"

subsection \<open>Agents\<close>

datatype agent_type = ZERO_SHOT_REACT_DESCRIPTION

text \<open>\<open>JsonSpec\<close>; its field \<open>dict_\<close> is written \<open>spec_dict\<close>.\<close>

record json_spec =
  spec_dict :: document
  max_value_length :: int

datatype json_toolkit = JsonToolkit (spec: json_spec)

text \<open>
  An agent executor is the builder that made it together with the arguments the builder
  was given: \<open>create_custom_pandas_dataframe_agent\<close> (lines 111-120) or
  \<open>create_json_agent\<close> (lines 131-138).
\<close>

datatype agent_executor =
    PandasDataframeAgent
      (agent_llm: llm)
      (df: dataframe)
      (verbose: bool)
      (agent_type: agent_type)
      (agent_executor_kwargs: "(string \<times> bool) list")
      (include_df_in_prompt: bool)
      (return_intermediate_steps: bool)
      (callback_manager: "callback_manager option")
  | JsonAgent
      (agent_llm: llm)
      (toolkit: json_toolkit)
      (verbose: bool)
      (agent_executor_kwargs: "(string \<times> bool) list")
      (callback_manager: "callback_manager option")
      (max_execution_time: int)

text \<open>What an agent run returns: a string, or another object given by its \<open>__str__\<close>.\<close>

datatype response = PyStr string | PyObject string

fun str :: "response \<Rightarrow> string" where
  "str (PyStr s) = s"
| "str (PyObject rendering) = rendering"

text \<open>
  The environment of one service object. \<open>OPENAI_API_KEY\<close> and \<open>VERBOSE\<close> are the
  two settings read; \<open>DATAFRAME_value\<close> and \<open>JSON_value\<close> are the values of the two
  members of the enumeration \<open>AgentKind\<close>, declared in another module;
  \<open>compare_dataframe\<close> is the fetch of the ORKG client; \<open>run\<close> and \<open>arun\<close> give the
  outcome of running an agent on a prompt; \<open>action_logs\<close> is the finite sequence of logs
  the pull handler hands out while that run goes on.
\<close>

record env =
  OPENAI_API_KEY :: string
  VERBOSE :: bool
  DATAFRAME_value :: string
  JSON_value :: string
  compare_dataframe :: "string \<Rightarrow> exn + dataframe"
  run :: "agent_executor \<Rightarrow> string \<Rightarrow> exn + response"
  arun :: "agent_executor \<Rightarrow> string \<Rightarrow> exn + response"
  action_logs :: "agent_executor \<Rightarrow> string \<Rightarrow> string list"

datatype call =
    NewLLM llm
  | CompareDataframe string
  | Run agent_executor string
  | ARun agent_executor string
  | CreateTask agent_executor string
  | AwaitTask agent_executor string

section \<open>The agent builder\<close>

text \<open>\<open>ComparisonChatService.create_agent\<close>, lines 59-142.\<close>

definition create_agent ::
  "env \<Rightarrow> string \<Rightarrow> string \<Rightarrow> string \<Rightarrow> bool \<Rightarrow> websocket option \<Rightarrow>
   connection_manager option \<Rightarrow> call list \<times> (exn + agent_executor \<times> handler)" where
  "create_agent e comparison_id model agent_kind async_agent websocket ws_manager =
    (let (stream_handler, handler_manager) =
           (if websocket \<noteq> None \<and> ws_manager \<noteq> None
            then (let stream_handler =
                        WSStreamThoughtsAndAnswerHandler (the websocket) (the ws_manager)
                  in (stream_handler, Some (BaseCallbackManager [stream_handler])))
            else (let stream_handler = AsyncStreamThoughtsAndAnswerHandler;
                      handler_manager = Some (AsyncCallbackManager [stream_handler])
                  in (stream_handler, if \<not> async_agent then None else handler_manager)));
         llm_model = (if model \<in> set CHAT_MODELS then ChatOpenAI else OpenAI);
         llm = \<lparr>cls = llm_model, streaming = True,
                openai_api_key = OPENAI_API_KEY e, model_name = model\<rparr>;
         calls = [NewLLM llm, CompareDataframe comparison_id]
     in case compare_dataframe e comparison_id of
          Inl err \<Rightarrow> (calls, Inl err)
        | Inr fetched \<Rightarrow>
           (let comparison = T fetched
            in if agent_kind = DATAFRAME_value e then
                 (calls,
                  Inr (PandasDataframeAgent llm comparison (VERBOSE e)
                         ZERO_SHOT_REACT_DESCRIPTION [(''handle_parsing_errors'', True)]
                         True False handler_manager,
                       stream_handler))
               else if agent_kind = JSON_value e then
                 (let json_spec =
                        \<lparr>spec_dict = to_dict (T comparison),
                         max_value_length =
                           (if \<not> isinstance_ChatOpenAI llm then 4000 else 13000)\<rparr>;
                      json_toolkit = JsonToolkit json_spec
                  in (calls,
                      Inr (JsonAgent llm json_toolkit (VERBOSE e)
                             [(''handle_parsing_errors'', True)] handler_manager 1,
                           stream_handler)))
               else (calls, Inl (NotImplementedError (''Unknown agent kind: '' @ agent_kind)))))"

text \<open>\<open>ComparisonChatService.initialize_agent\<close>, lines 41-57.\<close>

definition initialize_agent ::
  "env \<Rightarrow> string \<Rightarrow> string \<Rightarrow> string \<Rightarrow> bool \<Rightarrow> websocket option \<Rightarrow>
   connection_manager option \<Rightarrow> call list \<times> (exn + agent_executor \<times> handler)" where
  "initialize_agent e comparison_id model agent_kind async_agent websocket ws_manager =
    create_agent e comparison_id model agent_kind async_agent websocket ws_manager"

section \<open>Prompts and queries\<close>

text \<open>The literal of lines 261-279, to which the query is appended.\<close>

definition prompt_template :: string where
  \<open>prompt_template = ''\<newline>            This is a table of data extracted from the ORKG that represents a comparison of several research papers.\<newline>            The rows are properties of the papers, and the columns are the papers (contributions) themselves.\<newline>\<newline>            The questions will need you to look into the values, sometimes across multiple columns.\<newline>            The cells could contain multiple values and not just a single value.\<newline>\<newline>            If there is a date in there you might need to parse it to find answers about the year or the month.\<newline>\<newline>            If you do not know the answer, reply as follows:\<newline>            "Sorry!, I do not know."\<newline>\<newline>            Return all output as a string.\<newline>\<newline>            Lets think step by step.\<newline>\<newline>            Below is the query.\<newline>            Query:\<newline>            ''\<close>

text \<open>\<open>ComparisonChatService.initialize_components\<close>, lines 242-282.\<close>

definition initialize_components ::
  "env \<Rightarrow> string \<Rightarrow> string \<Rightarrow> string \<Rightarrow> string \<Rightarrow> bool \<Rightarrow> websocket option \<Rightarrow>
   connection_manager option \<Rightarrow> call list \<times> (exn + agent_executor \<times> string \<times> handler)" where
  "initialize_components e comparison_id query model agent_kind async_agent websocket ws_manager =
    (case initialize_agent e comparison_id model agent_kind async_agent websocket ws_manager of
       (calls, Inl err) \<Rightarrow> (calls, Inl err)
     | (calls, Inr (agent, handler)) \<Rightarrow>
         (let prompt = prompt_template @ query
          in (calls, Inr (agent, prompt, handler))))"

text \<open>\<open>ComparisonChatService.query_agent\<close>, lines 174-201: the blocking query.\<close>

definition query_agent ::
  "env \<Rightarrow> string \<Rightarrow> string \<Rightarrow> string \<Rightarrow> string \<Rightarrow> call list \<times> (exn + string)" where
  "query_agent e comparison_id query model agent_kind =
    (case initialize_components e comparison_id query model agent_kind False None None of
       (calls, Inl err) \<Rightarrow> (calls, Inl err)
     | (calls, Inr (agent, prompt, _)) \<Rightarrow>
         (case run e agent prompt of
            Inl err \<Rightarrow> (calls @ [Run agent prompt], Inl err)
          | Inr response \<Rightarrow> (calls @ [Run agent prompt], Inr (str response))))"

text \<open>\<open>ComparisonChatService.query_agent_ws\<close>, lines 203-240: the websocket query.\<close>

definition query_agent_ws ::
  "env \<Rightarrow> string \<Rightarrow> string \<Rightarrow> websocket \<Rightarrow> connection_manager \<Rightarrow> string \<Rightarrow> string \<Rightarrow>
   call list \<times> (exn + string)" where
  "query_agent_ws e comparison_id query websocket ws_manager model agent_kind =
    (case initialize_components e comparison_id query model agent_kind False
            (Some websocket) (Some ws_manager) of
       (calls, Inl err) \<Rightarrow> (calls, Inl err)
     | (calls, Inr (agent, prompt, _)) \<Rightarrow>
         (case arun e agent prompt of
            Inl err \<Rightarrow> (calls @ [ARun agent prompt], Inl err)
          | Inr response \<Rightarrow> (calls @ [ARun agent prompt], Inr (str response))))"

subsection \<open>The asynchronous generator\<close>

text \<open>
  \<open>ComparisonChatService.query_agent_async\<close>, lines 144-172, is an asynchronous
  generator function: calling it runs none of its body and returns the generator, and each
  \<open>__anext__\<close> of the consumer resumes the body up to the next \<open>yield\<close>. The generator
  is either not started (holding its arguments), suspended at the \<open>yield\<close> of line 170
  (holding the task and the logs not yet handed out), or closed.
\<close>

datatype agen =
    Created string string string string
  | Suspended agent_executor string "string list"
  | Closed

datatype item = Yield string | StopAsyncIteration | Raised exn

definition query_agent_async ::
  "env \<Rightarrow> string \<Rightarrow> string \<Rightarrow> string \<Rightarrow> string \<Rightarrow> call list \<times> agen" where
  "query_agent_async e comparison_id query model agent_kind =
    ([], Created comparison_id query model agent_kind)"

text \<open>
  The loop of lines 169-172 from its head: the next log is yielded; when the logs are
  exhausted the task is awaited, and its exception, if any, is raised there.
\<close>

fun resume_loop :: "env \<Rightarrow> agent_executor \<Rightarrow> string \<Rightarrow> string list \<Rightarrow> call list \<times> item \<times> agen" where
  "resume_loop e agent prompt (log # logs) = ([], Yield log, Suspended agent prompt logs)"
| "resume_loop e agent prompt [] =
     ([AwaitTask agent prompt],
      (case arun e agent prompt of Inl err \<Rightarrow> Raised err | Inr _ \<Rightarrow> StopAsyncIteration),
      Closed)"

fun anext :: "env \<Rightarrow> agen \<Rightarrow> call list \<times> item \<times> agen" where
  "anext e (Created comparison_id query model agent_kind) =
     (case initialize_components e comparison_id query model agent_kind True None None of
        (calls, Inl err) \<Rightarrow> (calls, Raised err, Closed)
      | (calls, Inr (agent, prompt, stream_handler)) \<Rightarrow>
          (case resume_loop e agent prompt (action_logs e agent prompt) of
             (calls', it, g) \<Rightarrow> (calls @ [CreateTask agent prompt] @ calls', it, g)))"
| "anext e (Suspended agent prompt logs) = resume_loop e agent prompt logs"
| "anext e Closed = ([], StopAsyncIteration, Closed)"

text \<open>A consumer that pulls \<open>n\<close> times: the calls made, the items received, the generator left.\<close>

fun pull :: "env \<Rightarrow> nat \<Rightarrow> agen \<Rightarrow> call list \<times> item list \<times> agen" where
  "pull e 0 g = ([], [], g)"
| "pull e (Suc n) g =
     (case anext e g of
        (calls, it, g') \<Rightarrow>
          (case pull e n g' of (calls', its, g'') \<Rightarrow> (calls @ calls', it # its, g'')))"

text \<open>The prompt a call hands to the agent, if it hands one.\<close>

fun executed_prompt :: "call \<Rightarrow> string option" where
  "executed_prompt (Run agent prompt) = Some prompt"
| "executed_prompt (ARun agent prompt) = Some prompt"
| "executed_prompt (CreateTask agent prompt) = Some prompt"
| "executed_prompt _ = None"

fun is_backend_call :: "call \<Rightarrow> bool" where
  "is_backend_call (Run agent prompt) = True"
| "is_backend_call (ARun agent prompt) = True"
| "is_backend_call (CreateTask agent prompt) = True"
| "is_backend_call (AwaitTask agent prompt) = True"
| "is_backend_call _ = False"

fun is_fetch :: "call \<Rightarrow> bool" where
  "is_fetch (CompareDataframe comparison_id) = True"
| "is_fetch _ = False"

text \<open>The handlers an agent reports to: those of its callback manager, if it has one.\<close>

fun bound_handlers :: "agent_executor \<Rightarrow> handler list" where
  "bound_handlers agent =
     (case callback_manager agent of
        None \<Rightarrow> []
      | Some (BaseCallbackManager hs) \<Rightarrow> hs
      | Some (AsyncCallbackManager hs) \<Rightarrow> hs)"

text \<open>A generator that was made for the query \<open>q\<close>, at any point of its life.\<close>

fun made_for :: "string \<Rightarrow> agen \<Rightarrow> bool" where
  "made_for q (Created comparison_id query model agent_kind) = (query = q)"
| "made_for q (Suspended agent prompt logs) = (prompt = prompt_template @ q)"
| "made_for q Closed = True"

section \<open>A concrete environment\<close>

definition gpt4 :: llm where
  "gpt4 = \<lparr>cls = ChatOpenAI, streaming = True, openai_api_key = ''key'',
           model_name = ''gpt-4''\<rparr>"

definition davinci :: llm where
  "davinci = \<lparr>cls = OpenAI, streaming = True, openai_api_key = ''key'',
              model_name = ''davinci''\<rparr>"

definition table1 :: dataframe where
  "table1 = \<lparr>index = [''method''], columns = [''paper1'', ''paper2''],
             cells = [[''BERT'', ''LSTM'']]\<rparr>"

definition env1 :: env where
  "env1 =
    \<lparr>OPENAI_API_KEY = ''key'',
     VERBOSE = False,
     DATAFRAME_value = ''dataframe'',
     JSON_value = ''json'',
     compare_dataframe = (\<lambda>cid. if cid = ''R1'' then Inr table1 else Inl (ExternalError ''not found'')),
     run = (\<lambda>agent prompt. Inr (PyStr ''two'')),
     arun = (\<lambda>agent prompt. if model_name (agent_llm agent) = ''gpt-4''
                              then Inr (PyStr ''two'') else Inl (ExternalError ''rate limit'')),
     action_logs = (\<lambda>agent prompt. [''thought'', ''answer''])\<rparr>"

section \<open>Properties of the agent builder\<close>

text \<open>
  The builder constructs the LLM object and fetches the comparison before it looks at the
  agent kind, so its calls are the same two whatever happens next.
\<close>

lemma create_agent_calls:
  "fst (create_agent e cid m k a ws mgr) =
     [NewLLM \<lparr>cls = (if m \<in> set CHAT_MODELS then ChatOpenAI else OpenAI), streaming = True,
              openai_api_key = OPENAI_API_KEY e, model_name = m\<rparr>,
      CompareDataframe cid]"
  by (simp add: create_agent_def Let_def split: sum.split prod.split)

lemma create_agent_fetch_failed:
  "compare_dataframe e cid = Inl err \<Longrightarrow> snd (create_agent e cid m k a ws mgr) = Inl err"
  by (simp add: create_agent_def Let_def split: prod.split)

lemma create_agent_unknown:
  "compare_dataframe e cid = Inr fetched \<Longrightarrow> k \<noteq> DATAFRAME_value e \<Longrightarrow>
   k \<noteq> JSON_value e \<Longrightarrow>
   snd (create_agent e cid m k a ws mgr) =
     Inl (NotImplementedError (''Unknown agent kind: '' @ k))"
  by (simp add: create_agent_def Let_def split: prod.split)

lemma initialize_components_failed:
  "snd (create_agent e cid m k a ws mgr) = Inl err \<Longrightarrow>
   initialize_components e cid q m k a ws mgr = (fst (create_agent e cid m k a ws mgr), Inl err)"
  by (cases "create_agent e cid m k a ws mgr")
     (simp add: initialize_components_def initialize_agent_def)

lemma initialize_components_built:
  "create_agent e cid m k a ws mgr = (cs, Inr (agent, h)) \<Longrightarrow>
   initialize_components e cid q m k a ws mgr = (cs, Inr (agent, prompt_template @ q, h))"
  by (simp add: initialize_components_def initialize_agent_def)

text \<open>Transposing twice gives a rectangular table back.\<close>

lemma T_T:
  assumes "rectangular tbl"
  shows "T (T tbl) = tbl"
proof -
  have len: "length (cells tbl) = length (index tbl)"
    using assms by (simp add: rectangular_def)
  have rows: "length (cells tbl ! j) = length (columns tbl)" if "j < length (index tbl)" for j
    using assms that by (simp add: rectangular_def list_all_length)
  have "map (\<lambda>j. map (\<lambda>i. cells (T tbl) ! i ! j) [0..<length (columns tbl)])
          [0..<length (index tbl)] = cells tbl"
    by (rule nth_equalityI) (auto simp: T_def len rows intro!: nth_equalityI)
  then show ?thesis
    by (simp add: T_def)
qed

text \<open>
  The default \<open>to_dict\<close> goes by columns, so on a transposed table it goes by the rows
  of the table that was transposed.
\<close>

lemma T_labels:
  "index (T tbl) = columns tbl" "columns (T tbl) = index tbl"
  by (simp_all add: T_def)

lemma T_cell:
  "i < length (index tbl) \<Longrightarrow> j < length (columns tbl) \<Longrightarrow>
   cells (T tbl) ! j ! i = cells tbl ! i ! j"
  by (simp add: T_def)

lemma to_dict_T: "to_dict (T tbl) = to_dict_rows tbl"
proof -
  have "map (\<lambda>j. (columns (T tbl) ! j,
                   dict (map (\<lambda>i. (index (T tbl) ! i, cells (T tbl) ! i ! j))
                          [0..<length (index (T tbl))])))
          [0..<length (columns (T tbl))] =
        map (\<lambda>i. (index tbl ! i,
                   dict (map (\<lambda>j. (columns tbl ! j, cells tbl ! i ! j))
                          [0..<length (columns tbl)])))
          [0..<length (index tbl)]"
  proof (rule map_cong)
    show "[0..<length (columns (T tbl))] = [0..<length (index tbl)]"
      by (simp add: T_labels)
  next
    fix i
    assume "i \<in> set [0..<length (index tbl)]"
    then have i: "i < length (index tbl)" by simp
    have inner:
      "map (\<lambda>j. (columns tbl ! j, cells (T tbl) ! j ! i)) [0..<length (columns tbl)] =
       map (\<lambda>j. (columns tbl ! j, cells tbl ! i ! j)) [0..<length (columns tbl)]"
      by (rule map_cong) (simp_all add: T_cell i)
    show "(columns (T tbl) ! i,
           dict (map (\<lambda>j. (index (T tbl) ! j, cells (T tbl) ! j ! i))
                  [0..<length (index (T tbl))])) =
          (index tbl ! i,
           dict (map (\<lambda>j. (columns tbl ! j, cells tbl ! i ! j))
                  [0..<length (columns tbl)]))"
      unfolding T_labels inner ..
  qed
  then show ?thesis
    by (simp add: to_dict_def to_dict_rows_def)
qed

subsection \<open>The concrete environment, evaluated\<close>

lemma env1_fetch:
  "compare_dataframe env1 ''R1'' = Inr table1"
  "compare_dataframe env1 ''R9'' = Inl (ExternalError ''not found'')"
  by (simp_all add: env1_def)

lemma env1_kinds:
  "DATAFRAME_value env1 = ''dataframe''" "JSON_value env1 = ''json''"
  by (simp_all add: env1_def)

lemma env1_runs:
  "run env1 agent p = Inr (PyStr ''two'')"
  "arun env1 agent p =
     (if model_name (agent_llm agent) = ''gpt-4'' then Inr (PyStr ''two'')
      else Inl (ExternalError ''rate limit''))"
  "action_logs env1 agent p = [''thought'', ''answer'']"
  by (simp_all add: env1_def)

lemma create_agent_env1_blocking:
  "create_agent env1 ''R1'' ''gpt-4'' ''dataframe'' False None None =
     ([NewLLM gpt4, CompareDataframe ''R1''],
      Inr (PandasDataframeAgent gpt4 (T table1) False ZERO_SHOT_REACT_DESCRIPTION
             [(''handle_parsing_errors'', True)] True False None,
           AsyncStreamThoughtsAndAnswerHandler))"
  by (simp add: create_agent_def env1_def gpt4_def CHAT_MODELS_def Let_def)

lemma create_agent_env1_pull:
  "create_agent env1 ''R1'' ''gpt-4'' ''dataframe'' True None None =
     ([NewLLM gpt4, CompareDataframe ''R1''],
      Inr (PandasDataframeAgent gpt4 (T table1) False ZERO_SHOT_REACT_DESCRIPTION
             [(''handle_parsing_errors'', True)] True False
             (Some (AsyncCallbackManager [AsyncStreamThoughtsAndAnswerHandler])),
           AsyncStreamThoughtsAndAnswerHandler))"
  by (simp add: create_agent_def env1_def gpt4_def CHAT_MODELS_def Let_def)

lemma create_agent_env1_pull_davinci:
  "create_agent env1 ''R1'' ''davinci'' ''dataframe'' True None None =
     ([NewLLM davinci, CompareDataframe ''R1''],
      Inr (PandasDataframeAgent davinci (T table1) False ZERO_SHOT_REACT_DESCRIPTION
             [(''handle_parsing_errors'', True)] True False
             (Some (AsyncCallbackManager [AsyncStreamThoughtsAndAnswerHandler])),
           AsyncStreamThoughtsAndAnswerHandler))"
  by (simp add: create_agent_def env1_def davinci_def CHAT_MODELS_def Let_def)

lemma create_agent_env1_push:
  "create_agent env1 ''R1'' ''gpt-4'' ''dataframe'' False
       (Some (WebSocket 1)) (Some (ConnectionManager 0)) =
     ([NewLLM gpt4, CompareDataframe ''R1''],
      Inr (PandasDataframeAgent gpt4 (T table1) False ZERO_SHOT_REACT_DESCRIPTION
             [(''handle_parsing_errors'', True)] True False
             (Some (BaseCallbackManager
                [WSStreamThoughtsAndAnswerHandler (WebSocket 1) (ConnectionManager 0)])),
           WSStreamThoughtsAndAnswerHandler (WebSocket 1) (ConnectionManager 0)))"
  by (simp add: create_agent_def env1_def gpt4_def CHAT_MODELS_def Let_def)

lemma create_agent_env1_json:
  "create_agent env1 ''R1'' ''davinci'' ''json'' True None None =
     ([NewLLM davinci, CompareDataframe ''R1''],
      Inr (JsonAgent davinci
             (JsonToolkit \<lparr>spec_dict = to_dict (T (T table1)), max_value_length = 4000\<rparr>)
             False [(''handle_parsing_errors'', True)]
             (Some (AsyncCallbackManager [AsyncStreamThoughtsAndAnswerHandler])) 1,
           AsyncStreamThoughtsAndAnswerHandler))"
  by (simp add: create_agent_def env1_def davinci_def CHAT_MODELS_def Let_def
        isinstance_ChatOpenAI_def)

lemma to_dict_table1:
  "to_dict table1 = [(''paper1'', [(''method'', ''BERT'')]), (''paper2'', [(''method'', ''LSTM'')])]"
  by (simp add: to_dict_def table1_def dict_def)

lemma to_dict_T_table1:
  "to_dict (T table1) = [(''method'', [(''paper1'', ''BERT''), (''paper2'', ''LSTM'')])]"
  by (simp add: to_dict_def T_def table1_def dict_def)

lemma rectangular_table1: "rectangular table1"
  by (simp add: rectangular_def table1_def)

lemma to_dict_rows_T_table1:
  "to_dict_rows (T table1) =
     [(''paper1'', [(''method'', ''BERT'')]), (''paper2'', [(''method'', ''LSTM'')])]"
  by (simp add: to_dict_rows_def T_def table1_def dict_def)

subsection \<open>Unknown agent kinds\<close>

text \<open>
  Claim C1, as the code has it. For an agent kind that is neither \<open>AgentKind.DATAFRAME.value\<close>
  nor \<open>AgentKind.JSON.value\<close>, the LLM object is constructed and the comparison is fetched
  first (lines 97-105), and only then does the \<open>match\<close> raise \<open>NotImplementedError\<close>
  (line 142). When the fetch itself fails, its exception is what the caller sees. In both
  cases the builder, the blocking query, the websocket query and the first pull of the
  asynchronous generator all fail the same way, and no call reaches the agent.
\<close>

theorem unsupported_kind_fails_after_fetch:
  assumes "k \<noteq> DATAFRAME_value e" and "k \<noteq> JSON_value e"
  shows "(let calls = [NewLLM \<lparr>cls = (if m \<in> set CHAT_MODELS then ChatOpenAI else OpenAI),
                               streaming = True, openai_api_key = OPENAI_API_KEY e,
                               model_name = m\<rparr>,
                       CompareDataframe cid];
              failure = (case compare_dataframe e cid of
                           Inl err \<Rightarrow> err
                         | Inr fetched \<Rightarrow> NotImplementedError (''Unknown agent kind: '' @ k))
          in create_agent e cid m k a ws mgr = (calls, Inl failure) \<and>
             query_agent e cid q m k = (calls, Inl failure) \<and>
             query_agent_ws e cid q w wm m k = (calls, Inl failure) \<and>
             anext e (snd (query_agent_async e cid q m k)) = (calls, Raised failure, Closed) \<and>
             \<not> list_ex is_backend_call calls)"
proof -
  define failure where "failure =
    (case compare_dataframe e cid of
       Inl err \<Rightarrow> err
     | Inr fetched \<Rightarrow> NotImplementedError (''Unknown agent kind: '' @ k))"
  have r: "snd (create_agent e cid m k a' ws' mgr') = Inl failure" for a' ws' mgr'
    using assms
    by (cases "compare_dataframe e cid")
       (simp_all add: failure_def create_agent_fetch_failed create_agent_unknown)
  have c: "create_agent e cid m k a' ws' mgr' =
             (fst (create_agent e cid m k a' ws' mgr'), Inl failure)" for a' ws' mgr'
    using r [of a' ws' mgr'] by (simp add: prod_eq_iff)
  have i: "initialize_components e cid q m k a' ws' mgr' =
             (fst (create_agent e cid m k a' ws' mgr'), Inl failure)" for a' ws' mgr'
    by (rule initialize_components_failed [OF r])
  show ?thesis
    unfolding Let_def failure_def [symmetric]
    using c [of a ws mgr] i
    by (simp add: create_agent_calls query_agent_def query_agent_ws_def query_agent_async_def)
qed

text \<open>The kind \<open>xml\<close> on a comparison that exists: fetched, then refused.\<close>

theorem unsupported_kind_fails_after_fetch_witness:
  "''xml'' \<noteq> DATAFRAME_value env1 \<and> ''xml'' \<noteq> JSON_value env1 \<and>
   create_agent env1 ''R1'' ''gpt-4'' ''xml'' True None None =
     ([NewLLM \<lparr>cls = ChatOpenAI, streaming = True, openai_api_key = ''key'',
               model_name = ''gpt-4''\<rparr>,
       CompareDataframe ''R1''],
      Inl (NotImplementedError ''Unknown agent kind: xml'')) \<and>
   query_agent env1 ''R1'' ''How many?'' ''gpt-4'' ''xml'' =
     ([NewLLM \<lparr>cls = ChatOpenAI, streaming = True, openai_api_key = ''key'',
               model_name = ''gpt-4''\<rparr>,
       CompareDataframe ''R1''],
      Inl (NotImplementedError ''Unknown agent kind: xml''))"
  using unsupported_kind_fails_after_fetch
          [of "''xml''" env1 "''gpt-4''" "''R1''" True None None "''How many?''"
              "WebSocket 0" "ConnectionManager 0"]
  by (simp add: env1_def CHAT_MODELS_def Let_def)

text \<open>
  Claim C1 as the specification words it (the failure comes before any fetch) does not
  hold: with the kind \<open>xml\<close> the builder has already called the ORKG client.
\<close>

theorem unsupported_kind_no_fetch_counterexample:
  "''xml'' \<noteq> DATAFRAME_value env1 \<and> ''xml'' \<noteq> JSON_value env1 \<and>
   list_ex is_fetch (fst (create_agent env1 ''R1'' ''gpt-4'' ''xml'' True None None))"
  by (simp add: create_agent_calls env1_def)

subsection \<open>The handler and its callback manager\<close>

text \<open>
  Claim C9. Whenever the builder returns, the handler it returns and the callback manager it
  gave the agent follow lines 82-89: with both a websocket and a websocket manager, the
  websocket handler inside a \<open>BaseCallbackManager\<close>, whatever \<open>async_agent\<close> is; with
  either of the two absent, the asynchronous handler, inside an \<open>AsyncCallbackManager\<close>
  when \<open>async_agent\<close> is true and with no callback manager at all when it is false. So
  the asynchronous handler is returned exactly when a websocket argument is absent.
\<close>

theorem handler_selection:
  assumes "create_agent e cid m k a ws mgr = (cs, Inr (agent, h))"
  shows "(\<forall>w wm. ws = Some w \<and> mgr = Some wm \<longrightarrow>
            h = WSStreamThoughtsAndAnswerHandler w wm \<and>
            callback_manager agent = Some (BaseCallbackManager [h])) \<and>
         (ws = None \<or> mgr = None \<longrightarrow>
            h = AsyncStreamThoughtsAndAnswerHandler \<and>
            callback_manager agent =
              (if a then Some (AsyncCallbackManager [h]) else None)) \<and>
         (h = AsyncStreamThoughtsAndAnswerHandler \<longleftrightarrow> ws = None \<or> mgr = None)"
  using assms
  by (auto simp: create_agent_def Let_def split: sum.splits if_splits)

text \<open>Both branches, each with \<open>async_agent\<close> false.\<close>

theorem handler_selection_witness:
  "create_agent env1 ''R1'' ''gpt-4'' ''dataframe'' False
       (Some (WebSocket 1)) (Some (ConnectionManager 0)) =
     ([NewLLM gpt4, CompareDataframe ''R1''],
      Inr (PandasDataframeAgent gpt4 (T table1) False ZERO_SHOT_REACT_DESCRIPTION
             [(''handle_parsing_errors'', True)] True False
             (Some (BaseCallbackManager
                [WSStreamThoughtsAndAnswerHandler (WebSocket 1) (ConnectionManager 0)])),
           WSStreamThoughtsAndAnswerHandler (WebSocket 1) (ConnectionManager 0))) \<and>
   create_agent env1 ''R1'' ''gpt-4'' ''dataframe'' False None None =
     ([NewLLM gpt4, CompareDataframe ''R1''],
      Inr (PandasDataframeAgent gpt4 (T table1) False ZERO_SHOT_REACT_DESCRIPTION
             [(''handle_parsing_errors'', True)] True False None,
           AsyncStreamThoughtsAndAnswerHandler)) \<and>
   WSStreamThoughtsAndAnswerHandler (WebSocket 1) (ConnectionManager 0) \<noteq>
     AsyncStreamThoughtsAndAnswerHandler"
  using handler_selection [OF create_agent_env1_push] handler_selection [OF create_agent_env1_blocking]
        create_agent_env1_push create_agent_env1_blocking
  by simp

subsection \<open>The choice of the LLM class\<close>

text \<open>
  Claim C10. For every model name the builder constructs an LLM object, and it does so
  before anything can fail: the class is \<open>ChatOpenAI\<close> for the names of \<open>CHAT_MODELS\<close>
  and \<open>OpenAI\<close> for every other name, with \<open>streaming=True\<close> in both cases. The agent
  returned carries that object, and the only exceptions of the builder are the one of the
  fetch and the one of an unknown agent kind; none comes from the model name.
\<close>

theorem model_selection_total:
  "(let l = \<lparr>cls = (if m \<in> set CHAT_MODELS then ChatOpenAI else OpenAI), streaming = True,
             openai_api_key = OPENAI_API_KEY e, model_name = m\<rparr>
    in fst (create_agent e cid m k a ws mgr) = [NewLLM l, CompareDataframe cid] \<and>
       (\<forall>agent h. snd (create_agent e cid m k a ws mgr) = Inr (agent, h) \<longrightarrow>
                  agent_llm agent = l) \<and>
       (\<forall>err. snd (create_agent e cid m k a ws mgr) = Inl err \<longrightarrow>
              compare_dataframe e cid = Inl err \<or>
              err = NotImplementedError (''Unknown agent kind: '' @ k)))"
  by (auto simp: create_agent_def Let_def split: sum.splits if_splits prod.splits)

text \<open>A name outside \<open>CHAT_MODELS\<close>, with a fetch that succeeds and one that fails.\<close>

theorem model_selection_total_witness:
  "fst (create_agent env1 ''R1'' ''davinci'' ''json'' True None None) =
     [NewLLM davinci, CompareDataframe ''R1''] \<and>
   snd (create_agent env1 ''R1'' ''davinci'' ''json'' True None None) =
     Inr (JsonAgent davinci
            (JsonToolkit \<lparr>spec_dict = to_dict (T (T table1)), max_value_length = 4000\<rparr>)
            False [(''handle_parsing_errors'', True)]
            (Some (AsyncCallbackManager [AsyncStreamThoughtsAndAnswerHandler])) 1,
          AsyncStreamThoughtsAndAnswerHandler) \<and>
   snd (create_agent env1 ''R9'' ''davinci'' ''json'' True None None) =
     Inl (ExternalError ''not found'') \<and>
   compare_dataframe env1 ''R9'' = Inl (ExternalError ''not found'')"
  using model_selection_total [of "''davinci''" env1 "''R1''" "''json''" True None None]
        model_selection_total [of "''davinci''" env1 "''R9''" "''json''" True None None]
        create_agent_env1_json
  by (simp add: Let_def create_agent_fetch_failed env1_fetch)

subsection \<open>The two agent kinds\<close>

text \<open>
  Claim C7, as the code has it. When the fetch succeeds, the builder returns an agent and
  the handler it constructed for exactly the two kinds: the dataframe agent on the
  transposed table for \<open>AgentKind.DATAFRAME.value\<close>, the JSON agent for
  \<open>AgentKind.JSON.value\<close>, and \<open>NotImplementedError\<close> for every other kind. The
  handler returned is among the handlers the agent reports to exactly when \<open>async_agent\<close>
  is true or both websocket arguments are given; otherwise the agent has no callback
  manager and the handler is returned unbound.
\<close>

theorem build_supported_kinds:
  assumes "compare_dataframe e cid = Inr fetched"
  shows "(k = DATAFRAME_value e \<or> k = JSON_value e \<longrightarrow>
            (\<exists>agent h. snd (create_agent e cid m k a ws mgr) = Inr (agent, h) \<and>
               (case agent of
                  PandasDataframeAgent l t v ty kw i r cm \<Rightarrow>
                    k = DATAFRAME_value e \<and> t = T fetched
                | JsonAgent l tk v kw cm mt \<Rightarrow>
                    k \<noteq> DATAFRAME_value e \<and> k = JSON_value e \<and>
                    spec_dict (spec tk) = to_dict (T (T fetched))) \<and>
               (h \<in> set (bound_handlers agent) \<longleftrightarrow> a \<or> (ws \<noteq> None \<and> mgr \<noteq> None)) \<and>
               (h \<notin> set (bound_handlers agent) \<longrightarrow> callback_manager agent = None))) \<and>
         (k \<noteq> DATAFRAME_value e \<and> k \<noteq> JSON_value e \<longrightarrow>
            snd (create_agent e cid m k a ws mgr) =
              Inl (NotImplementedError (''Unknown agent kind: '' @ k)))"
  using assms
  by (auto simp: create_agent_def Let_def split: prod.splits)

text \<open>The kind \<open>dataframe\<close> with \<open>async_agent\<close> true, and the kind \<open>xml\<close>.\<close>

theorem build_supported_kinds_witness:
  "compare_dataframe env1 ''R1'' = Inr table1 \<and>
   ''dataframe'' = DATAFRAME_value env1 \<and>
   create_agent env1 ''R1'' ''gpt-4'' ''dataframe'' True None None =
     ([NewLLM gpt4, CompareDataframe ''R1''],
      Inr (PandasDataframeAgent gpt4 (T table1) False ZERO_SHOT_REACT_DESCRIPTION
             [(''handle_parsing_errors'', True)] True False
             (Some (AsyncCallbackManager [AsyncStreamThoughtsAndAnswerHandler])),
           AsyncStreamThoughtsAndAnswerHandler)) \<and>
   AsyncStreamThoughtsAndAnswerHandler \<in> set (bound_handlers
      (PandasDataframeAgent gpt4 (T table1) False ZERO_SHOT_REACT_DESCRIPTION
             [(''handle_parsing_errors'', True)] True False
             (Some (AsyncCallbackManager [AsyncStreamThoughtsAndAnswerHandler])))) \<and>
   ''xml'' \<noteq> DATAFRAME_value env1 \<and> ''xml'' \<noteq> JSON_value env1 \<and>
   snd (create_agent env1 ''R1'' ''gpt-4'' ''xml'' True None None) =
     Inl (NotImplementedError ''Unknown agent kind: xml'')"
proof -
  note w1 = build_supported_kinds [OF env1_fetch(1), of "''dataframe''" "''gpt-4''" True None None]
  note w2 = build_supported_kinds [OF env1_fetch(1), of "''xml''" "''gpt-4''" True None None]
  from w1 create_agent_env1_pull
  have b: "AsyncStreamThoughtsAndAnswerHandler \<in> set (bound_handlers
      (PandasDataframeAgent gpt4 (T table1) False ZERO_SHOT_REACT_DESCRIPTION
             [(''handle_parsing_errors'', True)] True False
             (Some (AsyncCallbackManager [AsyncStreamThoughtsAndAnswerHandler]))))"
    by (simp add: env1_kinds)
  from w2 have x: "snd (create_agent env1 ''R1'' ''gpt-4'' ''xml'' True None None) =
     Inl (NotImplementedError ''Unknown agent kind: xml'')"
    by (simp add: env1_kinds)
  from b x show ?thesis
    by (simp add: env1_fetch env1_kinds create_agent_env1_pull)
qed

text \<open>
  Claim C7 as the specification words it (the handler returned is the one bound to the
  session) does not hold for the blocking configuration of lines 88-89: the agent gets no
  callback manager.
\<close>

theorem build_handler_bound_counterexample:
  "compare_dataframe env1 ''R1'' = Inr table1 \<and>
   ''dataframe'' = DATAFRAME_value env1 \<and>
   create_agent env1 ''R1'' ''gpt-4'' ''dataframe'' False None None =
     ([NewLLM gpt4, CompareDataframe ''R1''],
      Inr (PandasDataframeAgent gpt4 (T table1) False ZERO_SHOT_REACT_DESCRIPTION
             [(''handle_parsing_errors'', True)] True False None,
           AsyncStreamThoughtsAndAnswerHandler)) \<and>
   AsyncStreamThoughtsAndAnswerHandler \<notin> set (bound_handlers
      (PandasDataframeAgent gpt4 (T table1) False ZERO_SHOT_REACT_DESCRIPTION
             [(''handle_parsing_errors'', True)] True False None))"
  by (simp add: env1_fetch env1_kinds create_agent_env1_blocking)

subsection \<open>The document of the JSON agent\<close>

text \<open>
  Claim C4. For \<open>AgentKind.JSON.value\<close> the fetched table is transposed first
  (line 105), and the transposed table is then flattened by \<open>comparison.T.to_dict()\<close>
  (line 126) into the nested document given to \<open>JsonSpec\<close>: one entry per row label of
  the transposed table, holding one entry per column label, holding the cell.
  \<open>max_value_length\<close> is 13000 for the models of \<open>CHAT_MODELS\<close>, whose LLM is a
  \<open>ChatOpenAI\<close>, and 4000 for all others.
\<close>

theorem structured_document:
  assumes "compare_dataframe e cid = Inr fetched"
    and "k = JSON_value e" and "k \<noteq> DATAFRAME_value e"
  shows "\<exists>agent h. snd (create_agent e cid m k a ws mgr) = Inr (agent, h) \<and>
           spec_dict (spec (toolkit agent)) = to_dict (T (T fetched)) \<and>
           spec_dict (spec (toolkit agent)) = to_dict_rows (T fetched) \<and>
           max_value_length (spec (toolkit agent)) =
             (if m \<in> set CHAT_MODELS then 13000 else 4000) \<and>
           cls (agent_llm agent) = (if m \<in> set CHAT_MODELS then ChatOpenAI else OpenAI)"
  using assms
  by (auto simp: create_agent_def Let_def isinstance_ChatOpenAI_def to_dict_T
           split: prod.splits)

text \<open>A table fetched with one row and two columns, and a model outside \<open>CHAT_MODELS\<close>.\<close>

theorem structured_document_witness:
  "compare_dataframe env1 ''R1'' = Inr table1 \<and> ''json'' = JSON_value env1 \<and>
   ''json'' \<noteq> DATAFRAME_value env1 \<and>
   T table1 = \<lparr>index = [''paper1'', ''paper2''], columns = [''method''],
                cells = [[''BERT''], [''LSTM'']]\<rparr> \<and>
   snd (create_agent env1 ''R1'' ''davinci'' ''json'' True None None) =
     Inr (JsonAgent davinci
            (JsonToolkit
               \<lparr>spec_dict = [(''paper1'', [(''method'', ''BERT'')]),
                             (''paper2'', [(''method'', ''LSTM'')])],
                max_value_length = 4000\<rparr>)
            False [(''handle_parsing_errors'', True)]
            (Some (AsyncCallbackManager [AsyncStreamThoughtsAndAnswerHandler])) 1,
          AsyncStreamThoughtsAndAnswerHandler)"
proof -
  have j: "''json'' = JSON_value env1" and d: "''json'' \<noteq> DATAFRAME_value env1"
    by (simp_all add: env1_kinds)
  have t: "T table1 = \<lparr>index = [''paper1'', ''paper2''], columns = [''method''],
                        cells = [[''BERT''], [''LSTM'']]\<rparr>"
    by (simp add: T_def table1_def)
  from structured_document [OF env1_fetch(1) j d, of "''davinci''" True None None]
  obtain agent h where
    r: "snd (create_agent env1 ''R1'' ''davinci'' ''json'' True None None) = Inr (agent, h)"
    and s: "spec_dict (spec (toolkit agent)) = to_dict_rows (T table1)"
    by blast
  from r have "agent = JsonAgent davinci
             (JsonToolkit \<lparr>spec_dict = to_dict (T (T table1)), max_value_length = 4000\<rparr>)
             False [(''handle_parsing_errors'', True)]
             (Some (AsyncCallbackManager [AsyncStreamThoughtsAndAnswerHandler])) 1"
    and h: "h = AsyncStreamThoughtsAndAnswerHandler"
    by (simp_all add: create_agent_env1_json)
  with s have "to_dict (T (T table1)) = to_dict_rows (T table1)"
    by simp
  then have c: "snd (create_agent env1 ''R1'' ''davinci'' ''json'' True None None) =
     Inr (JsonAgent davinci
            (JsonToolkit
               \<lparr>spec_dict = [(''paper1'', [(''method'', ''BERT'')]),
                             (''paper2'', [(''method'', ''LSTM'')])],
                max_value_length = 4000\<rparr>)
            False [(''handle_parsing_errors'', True)]
            (Some (AsyncCallbackManager [AsyncStreamThoughtsAndAnswerHandler])) 1,
          AsyncStreamThoughtsAndAnswerHandler)"
    by (simp add: create_agent_env1_json to_dict_rows_T_table1)
  show ?thesis
    by (intro conjI) (rule env1_fetch(1) j d t c)+
qed

subsection \<open>The execution time given to the agents\<close>

text \<open>
  The JSON agent is built with \<open>max_execution_time=1\<close> (line 137). The call that builds
  the dataframe agent (lines 111-120) has no such argument. What the executor does when
  the time is over is not code of this module.
\<close>

lemma json_agent_max_execution_time:
  assumes "create_agent e cid m k a ws mgr = (cs, Inr (JsonAgent l tk v kw cm mt, h))"
  shows "mt = 1 \<and> k = JSON_value e \<and> k \<noteq> DATAFRAME_value e"
  using assms
  by (auto simp: create_agent_def Let_def split: sum.splits if_splits prod.splits)

section \<open>Properties of the queries\<close>

subsection \<open>The blocking query\<close>

text \<open>
  Claim C5. The blocking query builds its agent with no callback manager, so nothing the
  agent thinks reaches a handler; it runs the agent once and returns the response turned
  into a string, or the exception of the run; and when the builder fails, it fails with the
  builder's exception and runs nothing.
\<close>

theorem blocking_query_answer_only:
  "(\<forall>cs agent h. create_agent e cid m k False None None = (cs, Inr (agent, h)) \<longrightarrow>
      callback_manager agent = None \<and>
      query_agent e cid q m k =
        (cs @ [Run agent (prompt_template @ q)],
         map_sum id str (run e agent (prompt_template @ q)))) \<and>
   (\<forall>cs err. create_agent e cid m k False None None = (cs, Inl err) \<longrightarrow>
      query_agent e cid q m k = (cs, Inl err))"
proof (intro conjI allI impI)
  fix cs agent h
  assume b: "create_agent e cid m k False None None = (cs, Inr (agent, h))"
  from b show "callback_manager agent = None"
    by (auto simp: create_agent_def Let_def split: sum.splits if_splits)
  from b show "query_agent e cid q m k =
        (cs @ [Run agent (prompt_template @ q)],
         map_sum id str (run e agent (prompt_template @ q)))"
    by (simp add: query_agent_def initialize_components_built split: sum.split)
next
  fix cs err
  assume "create_agent e cid m k False None None = (cs, Inl err)"
  then show "query_agent e cid q m k = (cs, Inl err)"
    by (simp add: query_agent_def initialize_components_def initialize_agent_def)
qed

text \<open>A comparison that exists and one that does not.\<close>

theorem blocking_query_answer_only_witness:
  "create_agent env1 ''R1'' ''gpt-4'' ''dataframe'' False None None =
     ([NewLLM gpt4, CompareDataframe ''R1''],
      Inr (PandasDataframeAgent gpt4 (T table1) False ZERO_SHOT_REACT_DESCRIPTION
             [(''handle_parsing_errors'', True)] True False None,
           AsyncStreamThoughtsAndAnswerHandler)) \<and>
   query_agent env1 ''R1'' ''How many?'' ''gpt-4'' ''dataframe'' =
     ([NewLLM gpt4, CompareDataframe ''R1'',
       Run (PandasDataframeAgent gpt4 (T table1) False ZERO_SHOT_REACT_DESCRIPTION
              [(''handle_parsing_errors'', True)] True False None)
           (prompt_template @ ''How many?'')],
      Inr ''two'') \<and>
   create_agent env1 ''R9'' ''gpt-4'' ''dataframe'' False None None =
     ([NewLLM gpt4, CompareDataframe ''R9''], Inl (ExternalError ''not found'')) \<and>
   query_agent env1 ''R9'' ''How many?'' ''gpt-4'' ''dataframe'' =
     ([NewLLM gpt4, CompareDataframe ''R9''], Inl (ExternalError ''not found''))"
proof -
  have f: "create_agent env1 ''R9'' ''gpt-4'' ''dataframe'' False None None =
     ([NewLLM gpt4, CompareDataframe ''R9''], Inl (ExternalError ''not found''))"
    by (simp add: create_agent_def env1_def gpt4_def CHAT_MODELS_def Let_def)
  from blocking_query_answer_only [of env1 "''R1''" "''gpt-4''" "''dataframe''" "''How many?''"]
       blocking_query_answer_only [of env1 "''R9''" "''gpt-4''" "''dataframe''" "''How many?''"]
  show ?thesis
    using create_agent_env1_blocking f by (simp add: env1_runs)
qed

subsection \<open>The websocket query\<close>

text \<open>
  Claim C8. The websocket query builds its agent with the websocket handler, bound to the
  given websocket and manager through a \<open>BaseCallbackManager\<close>; it awaits \<open>arun\<close> once
  and returns the response turned into a string, or the exception of the run; and when the
  builder fails, it fails with the builder's exception.
\<close>

theorem push_query_answer:
  "(\<forall>cs agent h. create_agent e cid m k False (Some w) (Some wm) = (cs, Inr (agent, h)) \<longrightarrow>
      h = WSStreamThoughtsAndAnswerHandler w wm \<and>
      callback_manager agent = Some (BaseCallbackManager [h]) \<and>
      query_agent_ws e cid q w wm m k =
        (cs @ [ARun agent (prompt_template @ q)],
         map_sum id str (arun e agent (prompt_template @ q)))) \<and>
   (\<forall>cs err. create_agent e cid m k False (Some w) (Some wm) = (cs, Inl err) \<longrightarrow>
      query_agent_ws e cid q w wm m k = (cs, Inl err))"
proof (intro conjI allI impI)
  fix cs agent h
  assume b: "create_agent e cid m k False (Some w) (Some wm) = (cs, Inr (agent, h))"
  from b show "h = WSStreamThoughtsAndAnswerHandler w wm"
    by (auto simp: create_agent_def Let_def split: sum.splits if_splits)
  from b show "callback_manager agent = Some (BaseCallbackManager [h])"
    by (auto simp: create_agent_def Let_def split: sum.splits if_splits)
  from b show "query_agent_ws e cid q w wm m k =
        (cs @ [ARun agent (prompt_template @ q)],
         map_sum id str (arun e agent (prompt_template @ q)))"
    by (simp add: query_agent_ws_def initialize_components_built split: sum.split)
next
  fix cs err
  assume "create_agent e cid m k False (Some w) (Some wm) = (cs, Inl err)"
  then show "query_agent_ws e cid q w wm m k = (cs, Inl err)"
    by (simp add: query_agent_ws_def initialize_components_def initialize_agent_def)
qed

text \<open>A comparison that exists and one that does not.\<close>

theorem push_query_answer_witness:
  "create_agent env1 ''R1'' ''gpt-4'' ''dataframe'' False
       (Some (WebSocket 1)) (Some (ConnectionManager 0)) =
     ([NewLLM gpt4, CompareDataframe ''R1''],
      Inr (PandasDataframeAgent gpt4 (T table1) False ZERO_SHOT_REACT_DESCRIPTION
             [(''handle_parsing_errors'', True)] True False
             (Some (BaseCallbackManager
                [WSStreamThoughtsAndAnswerHandler (WebSocket 1) (ConnectionManager 0)])),
           WSStreamThoughtsAndAnswerHandler (WebSocket 1) (ConnectionManager 0))) \<and>
   query_agent_ws env1 ''R1'' ''How many?'' (WebSocket 1) (ConnectionManager 0)
       ''gpt-4'' ''dataframe'' =
     ([NewLLM gpt4, CompareDataframe ''R1'',
       ARun (PandasDataframeAgent gpt4 (T table1) False ZERO_SHOT_REACT_DESCRIPTION
               [(''handle_parsing_errors'', True)] True False
               (Some (BaseCallbackManager
                  [WSStreamThoughtsAndAnswerHandler (WebSocket 1) (ConnectionManager 0)])))
            (prompt_template @ ''How many?'')],
      Inr ''two'') \<and>
   create_agent env1 ''R9'' ''gpt-4'' ''dataframe'' False
       (Some (WebSocket 1)) (Some (ConnectionManager 0)) =
     ([NewLLM gpt4, CompareDataframe ''R9''], Inl (ExternalError ''not found'')) \<and>
   query_agent_ws env1 ''R9'' ''How many?'' (WebSocket 1) (ConnectionManager 0)
       ''gpt-4'' ''dataframe'' =
     ([NewLLM gpt4, CompareDataframe ''R9''], Inl (ExternalError ''not found''))"
proof -
  have f: "create_agent env1 ''R9'' ''gpt-4'' ''dataframe'' False
       (Some (WebSocket 1)) (Some (ConnectionManager 0)) =
     ([NewLLM gpt4, CompareDataframe ''R9''], Inl (ExternalError ''not found''))"
    by (simp add: create_agent_def env1_def gpt4_def CHAT_MODELS_def Let_def)
  have r: "arun env1 (PandasDataframeAgent gpt4 t v ty kw i s cm) p = Inr (PyStr ''two'')"
    for t v ty kw i s cm p
    by (simp add: env1_def gpt4_def)
  from push_query_answer [of env1 "''R1''" "''gpt-4''" "''dataframe''" "WebSocket 1"
                             "ConnectionManager 0" "''How many?''"]
       push_query_answer [of env1 "''R9''" "''gpt-4''" "''dataframe''" "WebSocket 1"
                             "ConnectionManager 0" "''How many?''"]
  show ?thesis
    using create_agent_env1_push f by (simp add: r)
qed

subsection \<open>The prompt\<close>

lemma prompt_template_parts:
  \<open>prompt_template =
     ''\<newline>            This is a table of data extracted from the ORKG that represents a comparison of several research papers.\<newline>            The rows are properties of the papers, and the columns are the papers (contributions) themselves.\<newline>\<newline>            The questions will need you to look into the values, sometimes across multiple columns.\<newline>            '' @
     ''The cells could contain multiple values'' @
     '' and not just a single value.\<newline>\<newline>            '' @
     ''If there is a date'' @
     '' in there you might need to parse it to find answers about the year or the month.\<newline>\<newline>            If you do not know the answer, reply as follows:\<newline>            '' @
     ''"Sorry!, I do not know."'' @
     ''\<newline>\<newline>            '' @
     ''Return all output as a string.'' @
     ''\<newline>\<newline>            Lets think step by step.\<newline>\<newline>            Below is the query.\<newline>            Query:\<newline>            ''\<close>
  by (simp add: prompt_template_def)

lemma prompt_template_mentions:
  \<open>sublist ''The cells could contain multiple values'' prompt_template\<close>
  \<open>sublist ''If there is a date'' prompt_template\<close>
  \<open>sublist ''"Sorry!, I do not know."'' prompt_template\<close>
  \<open>sublist ''Return all output as a string.'' prompt_template\<close>
  unfolding sublist_def
  by (subst prompt_template_parts, metis append.assoc)+

lemma resume_loop_made_for:
  assumes "resume_loop e agent (prompt_template @ q) logs = (cs, it, g')"
  shows "made_for q g' \<and> (\<forall>c\<in>set cs. executed_prompt c = None)"
  using assms by (cases logs) auto

lemma anext_made_for:
  assumes "made_for q g" and "anext e g = (cs, it, g')"
  shows "made_for q g' \<and>
         (\<forall>c\<in>set cs. \<forall>p. executed_prompt c = Some p \<longrightarrow> p = prompt_template @ q)"
proof (cases g)
  case (Created cid q' m k)
  with assms(1) have q': "q' = q" by simp
  obtain cs0 r where c: "create_agent e cid m k True None None = (cs0, r)"
    by (cases "create_agent e cid m k True None None")
  have cs0: "\<forall>c\<in>set cs0. executed_prompt c = None"
    using create_agent_calls [of e cid m k True None None] c by simp
  show ?thesis
  proof (cases r)
    case (Inl err)
    with c assms(2) Created q' cs0 show ?thesis
      by (auto simp: initialize_components_def initialize_agent_def)
  next
    case (Inr ah)
    obtain agent h where ah: "ah = (agent, h)" by (cases ah)
    obtain cs1 it1 g1 where
      r1: "resume_loop e agent (prompt_template @ q) (action_logs e agent (prompt_template @ q))
             = (cs1, it1, g1)"
      by (cases "resume_loop e agent (prompt_template @ q)
                   (action_logs e agent (prompt_template @ q))")
    from resume_loop_made_for [OF r1]
    have g1: "made_for q g1" and cs1: "\<forall>c\<in>set cs1. executed_prompt c = None"
      by simp_all
    from c Inr ah have "initialize_components e cid q m k True None None =
        (cs0, Inr (agent, prompt_template @ q, h))"
      by (simp add: initialize_components_built)
    with assms(2) Created q' r1
    have "cs = cs0 @ [CreateTask agent (prompt_template @ q)] @ cs1" and "g' = g1"
      by simp_all
    with g1 cs0 cs1 show ?thesis by auto
  qed
next
  case (Suspended agent prompt logs)
  with assms(1) have "prompt = prompt_template @ q" by simp
  with assms(2) Suspended resume_loop_made_for [of e agent q logs cs it g']
  show ?thesis by simp
next
  case Closed
  with assms(2) show ?thesis by auto
qed

lemma pull_made_for:
  assumes "made_for q g" and "pull e n g = (cs, its, g')"
  shows "\<forall>c\<in>set cs. \<forall>p. executed_prompt c = Some p \<longrightarrow> p = prompt_template @ q"
  using assms
proof (induction n arbitrary: g cs its g')
  case 0
  then show ?case by simp
next
  case (Suc n)
  obtain cs1 it1 g1 where a: "anext e g = (cs1, it1, g1)"
    by (cases "anext e g")
  obtain cs2 its2 g2 where p: "pull e n g1 = (cs2, its2, g2)"
    by (cases "pull e n g1")
  from anext_made_for [OF Suc.prems(1) a]
  have g1: "made_for q g1"
    and cs1: "\<forall>c\<in>set cs1. \<forall>p. executed_prompt c = Some p \<longrightarrow> p = prompt_template @ q"
    by simp_all
  from Suc.IH [OF g1 p]
  have cs2: "\<forall>c\<in>set cs2. \<forall>p. executed_prompt c = Some p \<longrightarrow> p = prompt_template @ q" .
  from Suc.prems(2) a p have "cs = cs1 @ cs2" by simp
  with cs1 cs2 show ?case by auto
qed

lemma query_agent_prompts:
  "\<forall>c\<in>set (fst (query_agent e cid q m k)).
     \<forall>p. executed_prompt c = Some p \<longrightarrow> p = prompt_template @ q"
proof -
  obtain cs r where c: "create_agent e cid m k False None None = (cs, r)"
    by (cases "create_agent e cid m k False None None")
  have cs: "\<forall>c\<in>set cs. executed_prompt c = None"
    using create_agent_calls [of e cid m k False None None] c by simp
  show ?thesis
  proof (cases r)
    case (Inl err)
    with c cs show ?thesis
      by (simp add: query_agent_def initialize_components_def initialize_agent_def)
  next
    case (Inr ah)
    obtain agent h where "ah = (agent, h)" by (cases ah)
    with c Inr cs show ?thesis
      by (auto simp: query_agent_def initialize_components_built split: sum.split)
  qed
qed

lemma query_agent_ws_prompts:
  "\<forall>c\<in>set (fst (query_agent_ws e cid q w wm m k)).
     \<forall>p. executed_prompt c = Some p \<longrightarrow> p = prompt_template @ q"
proof -
  obtain cs r where c: "create_agent e cid m k False (Some w) (Some wm) = (cs, r)"
    by (cases "create_agent e cid m k False (Some w) (Some wm)")
  have cs: "\<forall>c\<in>set cs. executed_prompt c = None"
    using create_agent_calls [of e cid m k False "Some w" "Some wm"] c by simp
  show ?thesis
  proof (cases r)
    case (Inl err)
    with c cs show ?thesis
      by (simp add: query_agent_ws_def initialize_components_def initialize_agent_def)
  next
    case (Inr ah)
    obtain agent h where "ah = (agent, h)" by (cases ah)
    with c Inr cs show ?thesis
      by (auto simp: query_agent_ws_def initialize_components_built split: sum.split)
  qed
qed

lemma query_agent_runs_prompt:
  assumes "create_agent e cid m k False None None = (cs, Inr (agent, h))"
  shows "fst (query_agent e cid q m k) = cs @ [Run agent (prompt_template @ q)]"
  using assms
  by (simp add: query_agent_def initialize_components_built split: sum.split)

lemma query_agent_ws_runs_prompt:
  assumes "create_agent e cid m k False (Some w) (Some wm) = (cs, Inr (agent, h))"
  shows "fst (query_agent_ws e cid q w wm m k) = cs @ [ARun agent (prompt_template @ q)]"
  using assms
  by (simp add: query_agent_ws_def initialize_components_built split: sum.split)

lemma first_pull_creates_task:
  assumes "create_agent e cid m k True None None = (cs, Inr (agent, h))"
  shows "take (Suc (length cs)) (fst (pull e (Suc n) (snd (query_agent_async e cid q m k)))) =
           cs @ [CreateTask agent (prompt_template @ q)]"
proof -
  obtain cs1 it1 g1 where
    r: "resume_loop e agent (prompt_template @ q) (action_logs e agent (prompt_template @ q))
          = (cs1, it1, g1)"
    by (cases "resume_loop e agent (prompt_template @ q)
                 (action_logs e agent (prompt_template @ q))")
  obtain cs2 its2 g2 where p: "pull e n g1 = (cs2, its2, g2)"
    by (cases "pull e n g1")
  from r p show ?thesis
    by (simp add: query_agent_async_def initialize_components_built [OF assms])
qed

text \<open>
  Claim C6. The prompt \<open>initialize_components\<close> returns is the literal of lines 261-279
  followed by the query, whatever the other arguments are. Whenever the builder succeeds,
  that prompt is what the agent is given: the blocking query runs the agent on it, the
  websocket query awaits \<open>arun\<close> on it, and the first pull of the asynchronous generator
  creates the task on it. No call of the three operations hands any other prompt to an
  agent. The literal speaks of cells with multiple values, of dates, of the reply
  \<open>Sorry!, I do not know.\<close> in double quotes, and of returning all output as a string.
\<close>

theorem prompt_is_template_plus_query:
  \<open>(\<forall>cs agent p h. initialize_components e cid q m k a ws mgr = (cs, Inr (agent, p, h)) \<longrightarrow>
      p = prompt_template @ q) \<and>
   (\<forall>cs agent h. create_agent e cid m k False None None = (cs, Inr (agent, h)) \<longrightarrow>
      fst (query_agent e cid q m k) = cs @ [Run agent (prompt_template @ q)]) \<and>
   (\<forall>cs agent h. create_agent e cid m k False (Some w) (Some wm) = (cs, Inr (agent, h)) \<longrightarrow>
      fst (query_agent_ws e cid q w wm m k) = cs @ [ARun agent (prompt_template @ q)]) \<and>
   (\<forall>cs agent h n. create_agent e cid m k True None None = (cs, Inr (agent, h)) \<longrightarrow>
      take (Suc (length cs)) (fst (pull e (Suc n) (snd (query_agent_async e cid q m k)))) =
        cs @ [CreateTask agent (prompt_template @ q)]) \<and>
   (\<forall>c\<in>set (fst (query_agent e cid q m k)).
      \<forall>p. executed_prompt c = Some p \<longrightarrow> p = prompt_template @ q) \<and>
   (\<forall>c\<in>set (fst (query_agent_ws e cid q w wm m k)).
      \<forall>p. executed_prompt c = Some p \<longrightarrow> p = prompt_template @ q) \<and>
   (\<forall>n. \<forall>c\<in>set (fst (pull e n (snd (query_agent_async e cid q m k)))).
      \<forall>p. executed_prompt c = Some p \<longrightarrow> p = prompt_template @ q) \<and>
   sublist ''The cells could contain multiple values'' prompt_template \<and>
   sublist ''If there is a date'' prompt_template \<and>
   sublist ''"Sorry!, I do not know."'' prompt_template \<and>
   sublist ''Return all output as a string.'' prompt_template\<close>
proof -
  have i: "p = prompt_template @ q"
    if "initialize_components e cid q m k a ws mgr = (cs, Inr (agent, p, h))" for cs agent p h
    using that
    by (auto simp: initialize_components_def initialize_agent_def split: prod.splits sum.splits)
  have g: "\<forall>c\<in>set (fst (pull e n (snd (query_agent_async e cid q m k)))).
             \<forall>p. executed_prompt c = Some p \<longrightarrow> p = prompt_template @ q" for n
  proof -
    obtain cs its g' where p: "pull e n (Created cid q m k) = (cs, its, g')"
      by (cases "pull e n (Created cid q m k)")
    have "made_for q (Created cid q m k)" by simp
    from pull_made_for [OF this p] p show ?thesis
      by (simp add: query_agent_async_def)
  qed
  show ?thesis
  proof (intro conjI allI impI)
    fix cs agent p h
    assume "initialize_components e cid q m k a ws mgr = (cs, Inr (agent, p, h))"
    then show "p = prompt_template @ q" by (rule i)
  next
    fix cs agent h
    assume "create_agent e cid m k False None None = (cs, Inr (agent, h))"
    then show "fst (query_agent e cid q m k) = cs @ [Run agent (prompt_template @ q)]"
      by (rule query_agent_runs_prompt)
  next
    fix cs agent h
    assume "create_agent e cid m k False (Some w) (Some wm) = (cs, Inr (agent, h))"
    then show "fst (query_agent_ws e cid q w wm m k) = cs @ [ARun agent (prompt_template @ q)]"
      by (rule query_agent_ws_runs_prompt)
  next
    fix cs agent h n
    assume "create_agent e cid m k True None None = (cs, Inr (agent, h))"
    then show "take (Suc (length cs))
                 (fst (pull e (Suc n) (snd (query_agent_async e cid q m k)))) =
               cs @ [CreateTask agent (prompt_template @ q)]"
      by (rule first_pull_creates_task)
  next
    show "\<forall>c\<in>set (fst (query_agent e cid q m k)).
            \<forall>p. executed_prompt c = Some p \<longrightarrow> p = prompt_template @ q"
      by (rule query_agent_prompts)
  next
    show "\<forall>c\<in>set (fst (query_agent_ws e cid q w wm m k)).
            \<forall>p. executed_prompt c = Some p \<longrightarrow> p = prompt_template @ q"
      by (rule query_agent_ws_prompts)
  next
    fix n
    show "\<forall>c\<in>set (fst (pull e n (snd (query_agent_async e cid q m k)))).
            \<forall>p. executed_prompt c = Some p \<longrightarrow> p = prompt_template @ q"
      by (rule g)
  qed (rule prompt_template_mentions)+
qed

text \<open>
  The three operations on a comparison that exists: the blocking query, the websocket
  query and the first pull each hand the literal followed by the query to the agent built.
\<close>

theorem prompt_is_template_plus_query_witness:
  "fst (query_agent env1 ''R1'' ''How many?'' ''gpt-4'' ''dataframe'') =
     [NewLLM gpt4, CompareDataframe ''R1'',
      Run (PandasDataframeAgent gpt4 (T table1) False ZERO_SHOT_REACT_DESCRIPTION
             [(''handle_parsing_errors'', True)] True False None)
          (prompt_template @ ''How many?'')] \<and>
   fst (query_agent_ws env1 ''R1'' ''How many?'' (WebSocket 1) (ConnectionManager 0)
          ''gpt-4'' ''dataframe'') =
     [NewLLM gpt4, CompareDataframe ''R1'',
      ARun (PandasDataframeAgent gpt4 (T table1) False ZERO_SHOT_REACT_DESCRIPTION
              [(''handle_parsing_errors'', True)] True False
              (Some (BaseCallbackManager
                 [WSStreamThoughtsAndAnswerHandler (WebSocket 1) (ConnectionManager 0)])))
           (prompt_template @ ''How many?'')] \<and>
   take (Suc (Suc (Suc 0)))
     (fst (pull env1 (Suc 0)
            (snd (query_agent_async env1 ''R1'' ''How many?'' ''gpt-4'' ''dataframe'')))) =
     [NewLLM gpt4, CompareDataframe ''R1'',
      CreateTask (PandasDataframeAgent gpt4 (T table1) False ZERO_SHOT_REACT_DESCRIPTION
                    [(''handle_parsing_errors'', True)] True False
                    (Some (AsyncCallbackManager [AsyncStreamThoughtsAndAnswerHandler])))
                 (prompt_template @ ''How many?'')] \<and>
   (\<forall>p. executed_prompt
          (last (fst (query_agent env1 ''R1'' ''How many?'' ''gpt-4'' ''dataframe''))) = Some p
        \<longleftrightarrow> p = prompt_template @ ''How many?'')"
proof -
  note w = prompt_is_template_plus_query
             [of env1 "''R1''" "''How many?''" "''gpt-4''" "''dataframe''" False None None
                 "WebSocket 1" "ConnectionManager 0"]
  note w2 = w [THEN conjunct2]
  note w3 = w2 [THEN conjunct2]
  note w4 = w3 [THEN conjunct2]
  have b: "fst (query_agent env1 ''R1'' ''How many?'' ''gpt-4'' ''dataframe'') =
     [NewLLM gpt4, CompareDataframe ''R1'',
      Run (PandasDataframeAgent gpt4 (T table1) False ZERO_SHOT_REACT_DESCRIPTION
             [(''handle_parsing_errors'', True)] True False None)
          (prompt_template @ ''How many?'')]"
    using w2 [THEN conjunct1, rule_format, OF create_agent_env1_blocking] by simp
  have p: "fst (query_agent_ws env1 ''R1'' ''How many?'' (WebSocket 1) (ConnectionManager 0)
          ''gpt-4'' ''dataframe'') =
     [NewLLM gpt4, CompareDataframe ''R1'',
      ARun (PandasDataframeAgent gpt4 (T table1) False ZERO_SHOT_REACT_DESCRIPTION
              [(''handle_parsing_errors'', True)] True False
              (Some (BaseCallbackManager
                 [WSStreamThoughtsAndAnswerHandler (WebSocket 1) (ConnectionManager 0)])))
           (prompt_template @ ''How many?'')]"
    using w3 [THEN conjunct1, rule_format, OF create_agent_env1_push] by simp
  have g: "take (Suc (Suc (Suc 0)))
     (fst (pull env1 (Suc 0)
            (snd (query_agent_async env1 ''R1'' ''How many?'' ''gpt-4'' ''dataframe'')))) =
     [NewLLM gpt4, CompareDataframe ''R1'',
      CreateTask (PandasDataframeAgent gpt4 (T table1) False ZERO_SHOT_REACT_DESCRIPTION
                    [(''handle_parsing_errors'', True)] True False
                    (Some (AsyncCallbackManager [AsyncStreamThoughtsAndAnswerHandler])))
                 (prompt_template @ ''How many?'')]"
    using w4 [THEN conjunct1, rule_format, OF create_agent_env1_pull, of 0]
    by (simp del: pull.simps take_Suc_Cons)
  from b have "(\<forall>p. executed_prompt
          (last (fst (query_agent env1 ''R1'' ''How many?'' ''gpt-4'' ''dataframe''))) = Some p
        \<longleftrightarrow> p = prompt_template @ ''How many?'')"
    by auto
  with b p g show ?thesis
    by (intro conjI)
qed

subsection \<open>The asynchronous generator\<close>

lemma pull_suspended:
  "n \<le> length logs \<Longrightarrow>
   pull e n (Suspended agent prompt logs) =
     ([], map Yield (take n logs), Suspended agent prompt (drop n logs))"
proof (induction n arbitrary: logs)
  case 0
  then show ?case by simp
next
  case (Suc n)
  then obtain l ls where "logs = l # ls" by (cases logs) auto
  with Suc show ?case by simp
qed

lemma pull_suspended_end:
  "pull e (Suc (length logs)) (Suspended agent prompt logs) =
     ([AwaitTask agent prompt],
      map Yield logs @ [case arun e agent prompt of Inl err \<Rightarrow> Raised err | Inr _ \<Rightarrow> StopAsyncIteration],
      Closed)"
  by (induction logs) simp_all

text \<open>
  Claim C2, as the code has it. Calling \<open>query_agent_async\<close> returns the generator and
  does nothing else. When the builder succeeds, the first pull builds the agent and creates
  the task, and each of the first pulls, as many as there are logs, yields one log and
  awaits nothing; the pull after the last log awaits the task, and it is there that the
  exception of the run is raised, or the iteration stops.
\<close>

theorem pull_mode_order:
  assumes b: "create_agent e cid m k True None None = (cs, Inr (agent, h))"
    and l: "action_logs e agent (prompt_template @ q) = logs"
  shows "query_agent_async e cid q m k = ([], Created cid q m k) \<and>
         (\<forall>n. 0 < n \<and> n \<le> length logs \<longrightarrow>
            pull e n (Created cid q m k) =
              (cs @ [CreateTask agent (prompt_template @ q)],
               map Yield (take n logs),
               Suspended agent (prompt_template @ q) (drop n logs))) \<and>
         pull e (Suc (length logs)) (Created cid q m k) =
           (cs @ [CreateTask agent (prompt_template @ q), AwaitTask agent (prompt_template @ q)],
            map Yield logs @
              [case arun e agent (prompt_template @ q) of
                 Inl err \<Rightarrow> Raised err
               | Inr _ \<Rightarrow> StopAsyncIteration],
            Closed)"
proof (intro conjI allI impI)
  show "query_agent_async e cid q m k = ([], Created cid q m k)"
    by (simp add: query_agent_async_def)
next
  fix n
  assume n: "0 < n \<and> n \<le> length logs"
  then obtain n' where n': "n = Suc n'" by (cases n) auto
  from n n' obtain x xs where xs: "logs = x # xs" by (cases logs) auto
  from n n' xs have "n' \<le> length xs" by simp
  then show "pull e n (Created cid q m k) =
              (cs @ [CreateTask agent (prompt_template @ q)],
               map Yield (take n logs),
               Suspended agent (prompt_template @ q) (drop n logs))"
    by (simp add: n' xs initialize_components_built [OF b] l pull_suspended)
next
  show "pull e (Suc (length logs)) (Created cid q m k) =
           (cs @ [CreateTask agent (prompt_template @ q), AwaitTask agent (prompt_template @ q)],
            map Yield logs @
              [case arun e agent (prompt_template @ q) of
                 Inl err \<Rightarrow> Raised err
               | Inr _ \<Rightarrow> StopAsyncIteration],
            Closed)"
  proof (cases logs)
    case Nil
    then show ?thesis
      by (simp add: initialize_components_built [OF b] l)
  next
    case (Cons x xs)
    then show ?thesis
      using pull_suspended_end [of e xs agent "prompt_template @ q"]
      by (simp add: initialize_components_built [OF b] l del: pull.simps(2))
         (simp add: initialize_components_built [OF b] l)
  qed
qed

text \<open>Two logs, and a run that fails: the failure comes with the third pull.\<close>

theorem pull_mode_order_witness:
  "create_agent env1 ''R1'' ''davinci'' ''dataframe'' True None None =
     ([NewLLM davinci, CompareDataframe ''R1''],
      Inr (PandasDataframeAgent davinci (T table1) False ZERO_SHOT_REACT_DESCRIPTION
             [(''handle_parsing_errors'', True)] True False
             (Some (AsyncCallbackManager [AsyncStreamThoughtsAndAnswerHandler])),
           AsyncStreamThoughtsAndAnswerHandler)) \<and>
   pull env1 (Suc (Suc 0)) (Created ''R1'' ''How many?'' ''davinci'' ''dataframe'') =
     ([NewLLM davinci, CompareDataframe ''R1'',
       CreateTask (PandasDataframeAgent davinci (T table1) False ZERO_SHOT_REACT_DESCRIPTION
             [(''handle_parsing_errors'', True)] True False
             (Some (AsyncCallbackManager [AsyncStreamThoughtsAndAnswerHandler])))
          (prompt_template @ ''How many?'')],
      [Yield ''thought'', Yield ''answer''],
      Suspended (PandasDataframeAgent davinci (T table1) False ZERO_SHOT_REACT_DESCRIPTION
             [(''handle_parsing_errors'', True)] True False
             (Some (AsyncCallbackManager [AsyncStreamThoughtsAndAnswerHandler])))
          (prompt_template @ ''How many?'') []) \<and>
   pull env1 (Suc (Suc (Suc 0))) (Created ''R1'' ''How many?'' ''davinci'' ''dataframe'') =
     ([NewLLM davinci, CompareDataframe ''R1'',
       CreateTask (PandasDataframeAgent davinci (T table1) False ZERO_SHOT_REACT_DESCRIPTION
             [(''handle_parsing_errors'', True)] True False
             (Some (AsyncCallbackManager [AsyncStreamThoughtsAndAnswerHandler])))
          (prompt_template @ ''How many?''),
       AwaitTask (PandasDataframeAgent davinci (T table1) False ZERO_SHOT_REACT_DESCRIPTION
             [(''handle_parsing_errors'', True)] True False
             (Some (AsyncCallbackManager [AsyncStreamThoughtsAndAnswerHandler])))
          (prompt_template @ ''How many?'')],
      [Yield ''thought'', Yield ''answer'', Raised (ExternalError ''rate limit'')],
      Closed)"
proof -
  have r: "arun env1 (PandasDataframeAgent davinci t v ty kw i s cm) p =
             Inl (ExternalError ''rate limit'')" for t v ty kw i s cm p
    by (simp add: env1_runs davinci_def)
  note w = pull_mode_order [OF create_agent_env1_pull_davinci env1_runs(3), of "''How many?''"]
  from w [THEN conjunct2, THEN conjunct1, rule_format, of "Suc (Suc 0)"]
       w [THEN conjunct2, THEN conjunct2]
  show ?thesis
    using create_agent_env1_pull_davinci
    by (simp add: r del: pull.simps)
qed

text \<open>
  Claim C2 as the specification words it (the sequence is returned after the task was
  launched) does not hold: the call itself makes no call to the agent, and the first pull
  does.
\<close>

theorem pull_mode_launch_counterexample:
  "\<not> list_ex is_backend_call
        (fst (query_agent_async env1 ''R1'' ''How many?'' ''gpt-4'' ''dataframe'')) \<and>
   list_ex is_backend_call
     (fst (anext env1 (snd (query_agent_async env1 ''R1'' ''How many?'' ''gpt-4'' ''dataframe''))))"
  by (simp add: query_agent_async_def initialize_components_built [OF create_agent_env1_pull]
        env1_runs)

end
